theory Spec2Isabelle
  imports Complex_Main
begin

section \<open>Python values\<close>

text \<open>
  A Python \<open>str\<close> is a sequence of Unicode code points, so it is modelled as a list of
  natural numbers; \<open>str ''abc''\<close> writes an ASCII literal. Python integers are unbounded
  (\<open>int\<close>). Python floats are idealised as exact rationals: rounding, infinities and
  NaN are not modelled.
\<close>

type_synonym pystr = "nat list"

definition str :: "string \<Rightarrow> pystr" where
  "str s = map of_char s"

text \<open>
  A value produced by \<open>yaml.safe_load\<close> for one entry of the script: a null, a boolean,
  an integer, a float, a string or a mapping. A mapping is the list of its items in
  insertion order, with string keys (distinct, as in every Python dict).
\<close>

datatype yval =
    YNone
  | YBool bool
  | YInt int
  | YFloat rat
  | YStr pystr
  | YDict "(pystr \<times> yval) list"

section \<open>project.py: the project document\<close>

text \<open>\<open>Animation\<close>: the defaults are \<open>From = 0.0\<close>, \<open>To = 0.0\<close>,
  \<open>AnimationType = "\<dots>"\<close> (the two code points U+306A U+3057) and \<open>Span = 0.0\<close>.\<close>

record Animation =
  From :: rat
  To :: rat
  AnimationType :: pystr
  Span :: rat

definition Animation_default :: Animation where
  "Animation_default =
     \<lparr>From = 0, To = 0, AnimationType = [0x306A, 0x3057], Span = 0\<rparr>"

text \<open>\<open>Animation.const(value)\<close> is \<open>cls(From=value)\<close>: only \<open>From\<close> is passed, every
  other field keeps its default.\<close>

definition Animation_const :: "rat \<Rightarrow> Animation" where
  "Animation_const value = Animation_default\<lparr>From := value\<rparr>"

record VideoInfo =
  FPS :: int
  Hz :: int
  Width :: int
  Height :: int

subsection \<open>Timeline items\<close>

text \<open>
  The fields of \<open>AbstractItem\<close> and \<open>ItemBase\<close> that the program reads or sets; the
  other fields of the project schema pass through unchanged and are left out. The
  variants extend the base; \<open>ShapeItem\<close> and \<open>TachieItem\<close> are carried as their base.
  The constructors of \<open>Item\<close> are the discriminating \<open>Type\<close> tag.
\<close>

record ItemBase =
  Layer :: int
  Y :: Animation
  Opacity :: Animation
  Zoom :: Animation
  Frame :: int
  Length :: int

record ImageItem = ItemBase +
  FilePath :: pystr

record TextItem = ItemBase +
  FontSize :: Animation
  Text :: pystr

record VoiceItem = ItemBase +
  CharacterName :: pystr
  Serif :: pystr

datatype Item =
    Item_Image ImageItem
  | Item_Shape ItemBase
  | Item_Tachie ItemBase
  | Item_Text TextItem
  | Item_Voice VoiceItem

record Timeline =
  VideoInfo :: VideoInfo
  Items :: "Item list"

record Project =
  Timeline :: Timeline

section \<open>yaml2items.py: errors and external collaborators\<close>

record VoiceSpec =
  character :: pystr
  voice_text :: pystr

text \<open>
  The exceptions the modelled code can raise. \<open>ValueError_no_match s\<close> is the
  \<open>ValueError\<close> of \<open>main\<close> whose message is \<open>"No matching voice item for {s}"\<close>;
  \<open>NameError n\<close> is the failed lookup of the global name \<open>n\<close>.
\<close>

datatype error =
    TypeError
  | ValidationError
  | AssertionError
  | AttributeError
  | ZeroDivisionError
  | NameError pystr
  | ValueError_no_match VoiceSpec
  | FileNotFoundError
  | UnidentifiedImageError
  | YAMLError
  | JSONDecodeError

text \<open>
  What the code obtains from libraries and from the Python run time, taken as
  parameters:
  \<^item> \<open>float_of_str s\<close>: the built-in \<open>float(s)\<close> on a string (\<open>None\<close>: \<open>ValueError\<close>);
  \<^item> \<open>str_of_float x\<close>: the built-in \<open>str(x)\<close> on a float;
  \<^item> \<open>image_size p\<close>: \<open>Image.open(Path(p).resolve()).size\<close> of PIL, the pixel width
    and height of the image file, which PIL never reports as negative, or the
    exception of a missing or unreadable file;
  \<^item> \<open>read_script p\<close>: line 48, \<open>yaml.safe_load(Path(p).read_text())\<close>, the sequence
    of script lines, or the exception of a missing file or of invalid YAML;
  \<^item> \<open>read_project p\<close>: line 50,
    \<open>Project.parse_obj(json.loads(Path(p).read_text(encoding="utf-8-sig")))\<close>, the
    project document, or the exception of a missing file, of invalid JSON or of a
    document that fails validation.
\<close>

record externals =
  float_of_str :: "pystr \<Rightarrow> rat option"
  str_of_float :: "rat \<Rightarrow> pystr"
  image_size :: "pystr \<Rightarrow> error + (nat \<times> nat)"
  read_script :: "pystr \<Rightarrow> error + yval list"
  read_project :: "pystr \<Rightarrow> error + Project"

section \<open>yaml2items.py: the transform calculator\<close>

record ImageTransformation =
  transform_zoom :: rat
  transform_y :: rat

text \<open>
  \<open>calculate_image_transformation\<close>: the true divisions raise \<open>ZeroDivisionError\<close> on a
  zero divisor, in the order of the source; the two \<open>assert\<close> statements raise
  \<open>AssertionError\<close>. There is no other check of the image size.
\<close>

definition calculate_image_transformation ::
  "externals \<Rightarrow> pystr \<Rightarrow> VideoInfo \<Rightarrow> int \<Rightarrow> int \<Rightarrow> error + ImageTransformation" where
  "calculate_image_transformation E image_path video_info bottom_margin margin =
     (case image_size E image_path of
        Inl e \<Rightarrow> Inl e
      | Inr (image_width, image_height) \<Rightarrow>
          let transform_y' = of_int bottom_margin * (- (1 / 2)) in
          if image_width = 0 then Inl ZeroDivisionError
          else
            let width_zoom = of_int (Width video_info - margin) / of_nat image_width in
            if image_height = 0 then Inl ZeroDivisionError
            else
              let height_zoom =
                    of_int (Height video_info - margin - bottom_margin) / of_nat image_height;
                  transform_zoom' = 100 * min width_zoom height_zoom
              in
              if \<not> (transform_zoom' * of_nat image_height / 100
                       < of_int (Height video_info - bottom_margin))
              then Inl AssertionError
              else if \<not> (transform_zoom' * of_nat image_width / 100
                            < of_int (Width video_info))
              then Inl AssertionError
              else Inr \<lparr>transform_zoom = transform_zoom', transform_y = transform_y'\<rparr>)"

text \<open>An environment for the worked examples: every image is 800 by 600 pixels, and
  neither the script file nor the project file exists.\<close>

definition example_externals :: externals where
  "example_externals =
     \<lparr>float_of_str = (\<lambda>s. None),
      str_of_float = (\<lambda>x. []),
      image_size = (\<lambda>p. Inr (800, 600)),
      read_script = (\<lambda>p. Inl FileNotFoundError),
      read_project = (\<lambda>p. Inl FileNotFoundError)\<rparr>"

section \<open>yaml2items.py: the script parser\<close>

text \<open>\<open>key in line\<close>: membership among the keys of a mapping, the substring test on a
  string, and \<open>TypeError\<close> on a value that is not iterable.\<close>

fun is_substring :: "pystr \<Rightarrow> pystr \<Rightarrow> bool" where
  "is_substring sub [] = (sub = [])"
| "is_substring sub (c # cs) = (take (length sub) (c # cs) = sub \<or> is_substring sub cs)"

fun contains :: "yval \<Rightarrow> pystr \<Rightarrow> error + bool" where
  "contains (YDict d) key = Inr (key \<in> set (map fst d))"
| "contains (YStr s) key = Inr (is_substring key s)"
| "contains YNone key = Inl TypeError"
| "contains (YBool b) key = Inl TypeError"
| "contains (YInt i) key = Inl TypeError"
| "contains (YFloat x) key = Inl TypeError"

text \<open>\<open>str.strip()\<close> removes the code points that \<open>str.isspace\<close> accepts from both
  ends.\<close>

definition isspace :: "nat \<Rightarrow> bool" where
  "isspace c \<longleftrightarrow>
     c \<in> set ([0x9, 0xA, 0xB, 0xC, 0xD, 0x1C, 0x1D, 0x1E, 0x1F, 0x20, 0x85, 0xA0, 0x1680]
              @ [0x2000 ..< 0x200B] @ [0x2028, 0x2029, 0x202F, 0x205F, 0x3000])"

definition strip :: "pystr \<Rightarrow> pystr" where
  "strip s = rev (dropWhile isspace (rev (dropWhile isspace s)))"

text \<open>\<open>str(i)\<close> of an integer: its decimal digits, with a minus sign when negative.\<close>

fun str_of_nat :: "nat \<Rightarrow> pystr" where
  "str_of_nat n = (if n < 10 then [48 + n] else str_of_nat (n div 10) @ [48 + n mod 10])"

declare str_of_nat.simps [simp del]

definition str_of_int :: "int \<Rightarrow> pystr" where
  "str_of_int i = (if i < 0 then 45 # str_of_nat (nat (- i)) else str_of_nat (nat i))"

text \<open>
  The field validators of pydantic (version 1): a \<open>str\<close> field takes a string as it is
  and the \<open>str()\<close> of a number; a \<open>float\<close> field takes a float as it is and the
  \<open>float()\<close> of anything else. Every failure surfaces as one \<open>ValidationError\<close>.
\<close>

fun str_validator :: "externals \<Rightarrow> yval \<Rightarrow> error + pystr" where
  "str_validator E (YStr s) = Inr s"
| "str_validator E (YBool b) = Inr (if b then str ''True'' else str ''False'')"
| "str_validator E (YInt i) = Inr (str_of_int i)"
| "str_validator E (YFloat x) = Inr (str_of_float E x)"
| "str_validator E YNone = Inl ValidationError"
| "str_validator E (YDict d) = Inl ValidationError"

fun float_validator :: "externals \<Rightarrow> yval \<Rightarrow> error + rat" where
  "float_validator E (YFloat x) = Inr x"
| "float_validator E (YInt i) = Inr (of_int i)"
| "float_validator E (YBool b) = Inr (if b then 1 else 0)"
| "float_validator E (YStr s) =
     (case float_of_str E s of None \<Rightarrow> Inl ValidationError | Some x \<Rightarrow> Inr x)"
| "float_validator E YNone = Inl ValidationError"
| "float_validator E (YDict d) = Inl ValidationError"

text \<open>A field of type \<open>Optional[T]\<close> is \<open>None\<close> when the key is absent or its value is
  null; a required field fails when the key is absent.\<close>

definition optional_field :: "(yval \<Rightarrow> error + 'a) \<Rightarrow> yval option \<Rightarrow> error + 'a option" where
  "optional_field validate v =
     (case v of
        None \<Rightarrow> Inr None
      | Some YNone \<Rightarrow> Inr None
      | Some x \<Rightarrow> (case validate x of Inl e \<Rightarrow> Inl e | Inr a \<Rightarrow> Inr (Some a)))"

definition required_field :: "(yval \<Rightarrow> error + 'a) \<Rightarrow> yval option \<Rightarrow> error + 'a" where
  "required_field validate v = (case v of None \<Rightarrow> Inl ValidationError | Some x \<Rightarrow> validate x)"

text \<open>\<open>VoiceSpec(character=c, text=t)\<close>: both fields are \<open>str\<close>, and the validator of
  \<open>text\<close> strips the validated value.\<close>

definition VoiceSpec_new :: "externals \<Rightarrow> yval \<Rightarrow> yval \<Rightarrow> error + VoiceSpec" where
  "VoiceSpec_new E c t =
     (case str_validator E c of
        Inl e \<Rightarrow> Inl e
      | Inr c' \<Rightarrow>
          (case str_validator E t of
             Inl e \<Rightarrow> Inl e
           | Inr t' \<Rightarrow> Inr \<lparr>character = c', voice_text = strip t'\<rparr>))"

text \<open>A \<open>VoiceSpec\<close> given as a value inside a mapping is validated from a mapping with
  the keys \<open>character\<close> and \<open>text\<close>.\<close>

fun VoiceSpec_validate :: "externals \<Rightarrow> yval \<Rightarrow> error + VoiceSpec" where
  "VoiceSpec_validate E (YDict d) =
     (case map_of d (str ''character'') of
        None \<Rightarrow> Inl ValidationError
      | Some c \<Rightarrow>
          (case map_of d (str ''text'') of
             None \<Rightarrow> Inl ValidationError
           | Some t \<Rightarrow> VoiceSpec_new E c t))"
| "VoiceSpec_validate E YNone = Inl ValidationError"
| "VoiceSpec_validate E (YBool b) = Inl ValidationError"
| "VoiceSpec_validate E (YInt i) = Inl ValidationError"
| "VoiceSpec_validate E (YFloat x) = Inl ValidationError"
| "VoiceSpec_validate E (YStr s) = Inl ValidationError"

text \<open>
  \<open>ItemSpec\<close> with its two subclasses: the fields of the base class, and in \<open>kind\<close> the
  fields of the subclass (\<open>ImageSpec image\<close>, or \<open>TextSpec text font_size\<close>).
\<close>

datatype spec_kind =
    ImageSpec pystr
  | TextSpec pystr "rat option"

record ItemSpec =
  zoom :: "rat option"
  y :: "rat option"
  start_voice_spec :: "VoiceSpec option"
  end_voice_spec :: "VoiceSpec option"
  kind :: spec_kind

definition ItemSpec_fields ::
  "externals \<Rightarrow> (pystr \<times> yval) list \<Rightarrow> spec_kind \<Rightarrow> error + ItemSpec" where
  "ItemSpec_fields E d k =
     (case optional_field (float_validator E) (map_of d (str ''zoom'')) of
        Inl e \<Rightarrow> Inl e
      | Inr z \<Rightarrow>
     (case optional_field (float_validator E) (map_of d (str ''y'')) of
        Inl e \<Rightarrow> Inl e
      | Inr y' \<Rightarrow>
     (case optional_field (VoiceSpec_validate E) (map_of d (str ''start_voice_spec'')) of
        Inl e \<Rightarrow> Inl e
      | Inr sv \<Rightarrow>
     (case optional_field (VoiceSpec_validate E) (map_of d (str ''end_voice_spec'')) of
        Inl e \<Rightarrow> Inl e
      | Inr ev \<Rightarrow>
          Inr \<lparr>zoom = z, y = y', start_voice_spec = sv, end_voice_spec = ev, kind = k\<rparr>))))"

text \<open>\<open>parse_obj\<close> of a value that is not a mapping is a \<open>ValidationError\<close>.\<close>

fun ImageSpec_parse_obj :: "externals \<Rightarrow> yval \<Rightarrow> error + ItemSpec" where
  "ImageSpec_parse_obj E (YDict d) =
     (case required_field (str_validator E) (map_of d (str ''image'')) of
        Inl e \<Rightarrow> Inl e
      | Inr img \<Rightarrow> ItemSpec_fields E d (ImageSpec img))"
| "ImageSpec_parse_obj E YNone = Inl ValidationError"
| "ImageSpec_parse_obj E (YBool b) = Inl ValidationError"
| "ImageSpec_parse_obj E (YInt i) = Inl ValidationError"
| "ImageSpec_parse_obj E (YFloat x) = Inl ValidationError"
| "ImageSpec_parse_obj E (YStr s) = Inl ValidationError"

fun TextSpec_parse_obj :: "externals \<Rightarrow> yval \<Rightarrow> error + ItemSpec" where
  "TextSpec_parse_obj E (YDict d) =
     (case required_field (str_validator E) (map_of d (str ''text'')) of
        Inl e \<Rightarrow> Inl e
      | Inr txt \<Rightarrow>
          (case optional_field (float_validator E) (map_of d (str ''font_size'')) of
             Inl e \<Rightarrow> Inl e
           | Inr fs \<Rightarrow> ItemSpec_fields E d (TextSpec txt fs)))"
| "TextSpec_parse_obj E YNone = Inl ValidationError"
| "TextSpec_parse_obj E (YBool b) = Inl ValidationError"
| "TextSpec_parse_obj E (YInt i) = Inl ValidationError"
| "TextSpec_parse_obj E (YFloat x) = Inl ValidationError"
| "TextSpec_parse_obj E (YStr s) = Inl ValidationError"

text \<open>
  The generator \<open>list_item_specs\<close>, as the state of its loop: \<open>current_item\<close>,
  \<open>last_voice_spec\<close>, and the items yielded so far. An exception raised while the
  caller's \<open>list(...)\<close> drains the generator discards what was yielded.
\<close>

record parser_state =
  current_item :: "ItemSpec option"
  last_voice_spec :: "VoiceSpec option"
  yielded :: "ItemSpec list"

text \<open>Lines 138 to 146: the item is completed and yielded when the next marker comes.\<close>

definition yield_before_marker :: "parser_state \<Rightarrow> error + ItemSpec list" where
  "yield_before_marker st =
     (case current_item st of
        None \<Rightarrow> Inr (yielded st)
      | Some cur \<Rightarrow>
          let cur1 = (case last_voice_spec st of
                        Some l \<Rightarrow> cur\<lparr>end_voice_spec := Some l\<rparr>
                      | None \<Rightarrow> cur);
              cur2 = (if end_voice_spec cur1 = None
                      then cur1\<lparr>end_voice_spec := start_voice_spec cur1\<rparr>
                      else cur1)
          in if start_voice_spec cur2 \<noteq> None \<and> end_voice_spec cur2 \<noteq> None
             then Inr (yielded st @ [cur2])
             else Inl AssertionError)"

text \<open>Lines 164 to 168: the last item is completed and yielded after the loop.\<close>

definition yield_at_end :: "parser_state \<Rightarrow> error + ItemSpec list" where
  "yield_at_end st =
     (case current_item st of
        None \<Rightarrow> Inr (yielded st)
      | Some cur \<Rightarrow>
          let cur1 = (case last_voice_spec st of
                        Some l \<Rightarrow> cur\<lparr>end_voice_spec := Some l\<rparr>
                      | None \<Rightarrow> cur)
          in if start_voice_spec cur1 \<noteq> None \<and> end_voice_spec cur1 \<noteq> None
             then Inr (yielded st @ [cur1])
             else Inl AssertionError)"

text \<open>Line 137: \<open>"image" in line or "text" in line\<close>.\<close>

definition is_marker :: "yval \<Rightarrow> error + bool" where
  "is_marker line =
     (case contains line (str ''image'') of
        Inl e \<Rightarrow> Inl e
      | Inr True \<Rightarrow> Inr True
      | Inr False \<Rightarrow> contains line (str ''text''))"

text \<open>Lines 147 to 150.\<close>

definition parse_marker :: "externals \<Rightarrow> yval \<Rightarrow> error + ItemSpec" where
  "parse_marker E line =
     (case contains line (str ''image'') of
        Inl e \<Rightarrow> Inl e
      | Inr True \<Rightarrow> ImageSpec_parse_obj E line
      | Inr False \<Rightarrow> TextSpec_parse_obj E line)"

text \<open>Lines 153 to 162: a line that is not a marker.\<close>

definition voice_line :: "externals \<Rightarrow> parser_state \<Rightarrow> yval \<Rightarrow> error + parser_state" where
  "voice_line E st line =
     (case current_item st of
        None \<Rightarrow> Inr st
      | Some cur \<Rightarrow>
          (case line of
             YDict ((key, value) # rest) \<Rightarrow>
               (case VoiceSpec_new E (YStr key) value of
                  Inl e \<Rightarrow> Inl e
                | Inr voice_spec \<Rightarrow>
                    if start_voice_spec cur = None
                    then Inr (st\<lparr>current_item := Some (cur\<lparr>start_voice_spec := Some voice_spec\<rparr>)\<rparr>)
                    else Inr (st\<lparr>last_voice_spec := Some voice_spec\<rparr>))
           | _ \<Rightarrow> Inr st))"

text \<open>The body of the \<open>for\<close> loop, lines 137 to 162.\<close>

definition for_body :: "externals \<Rightarrow> parser_state \<Rightarrow> yval \<Rightarrow> error + parser_state" where
  "for_body E st line =
     (case is_marker line of
        Inl e \<Rightarrow> Inl e
      | Inr True \<Rightarrow>
          (case yield_before_marker st of
             Inl e \<Rightarrow> Inl e
           | Inr out \<Rightarrow>
               (case parse_marker E line of
                  Inl e \<Rightarrow> Inl e
                | Inr new_item \<Rightarrow>
                    Inr \<lparr>current_item = Some new_item, last_voice_spec = None, yielded = out\<rparr>))
      | Inr False \<Rightarrow> voice_line E st line)"

fun for_lines :: "externals \<Rightarrow> parser_state \<Rightarrow> yval list \<Rightarrow> error + parser_state" where
  "for_lines E st [] = Inr st"
| "for_lines E st (line # lines) =
     (case for_body E st line of
        Inl e \<Rightarrow> Inl e
      | Inr st' \<Rightarrow> for_lines E st' lines)"

definition list_item_specs :: "externals \<Rightarrow> yval list \<Rightarrow> error + ItemSpec list" where
  "list_item_specs E lines =
     (case for_lines E \<lparr>current_item = None, last_voice_spec = None, yielded = []\<rparr> lines of
        Inl e \<Rightarrow> Inl e
      | Inr st \<Rightarrow> yield_at_end st)"

section \<open>project.py: matching and construction of items\<close>

definition matches :: "VoiceSpec \<Rightarrow> VoiceItem \<Rightarrow> bool" where
  "matches self other =
     (if character self \<noteq> CharacterName other then False
      else if voice_text self \<noteq> Serif other then False
      else True)"

text \<open>
  \<open>ItemBase.attrs_from_spec\<close> builds the keyword arguments of the new item: \<open>Layer\<close>,
  \<open>Frame\<close> and \<open>Length\<close> always, \<open>Zoom\<close> and \<open>Y\<close> only when the value of the
  specification is truthy (neither \<open>None\<close> nor zero).
\<close>

record attrs =
  attrs_Layer :: int
  attrs_Frame :: int
  attrs_Length :: int
  attrs_Zoom :: "Animation option"
  attrs_Y :: "Animation option"

definition truthy :: "rat option \<Rightarrow> rat option" where
  "truthy v = (case v of None \<Rightarrow> None | Some x \<Rightarrow> if x = 0 then None else Some x)"

definition attrs_from_spec ::
  "ItemSpec \<Rightarrow> int \<Rightarrow> 'a ItemBase_scheme \<Rightarrow> 'b ItemBase_scheme \<Rightarrow> attrs" where
  "attrs_from_spec spec layer start_item end_item =
     \<lparr>attrs_Layer = layer,
      attrs_Frame = Frame start_item,
      attrs_Length = Frame end_item + Length end_item - Frame start_item,
      attrs_Zoom = map_option Animation_const (truthy (zoom spec)),
      attrs_Y = map_option Animation_const (truthy (y spec))\<rparr>"

text \<open>
  \<open>cls(**attrs)\<close>: a field that \<open>attrs\<close> does not give takes the default of the class
  (\<open>Y\<close>: \<open>Animation()\<close>; \<open>Opacity\<close> and \<open>Zoom\<close>: \<open>Animation.const(100.0)\<close>;
  \<open>FontSize\<close>: \<open>Animation.const(48)\<close>).
\<close>

definition ItemBase_of_attrs :: "attrs \<Rightarrow> ItemBase" where
  "ItemBase_of_attrs a =
     \<lparr>Layer = attrs_Layer a,
      Y = (case attrs_Y a of None \<Rightarrow> Animation_default | Some v \<Rightarrow> v),
      Opacity = Animation_const 100,
      Zoom = (case attrs_Zoom a of None \<Rightarrow> Animation_const 100 | Some v \<Rightarrow> v),
      Frame = attrs_Frame a,
      Length = attrs_Length a\<rparr>"

text \<open>\<open>TextItem.from_spec(spec, layer, start_item, end_item)\<close>; reading \<open>spec.text\<close> of a
  specification that is not a \<open>TextSpec\<close> is an \<open>AttributeError\<close>.\<close>

definition TextItem_from_spec ::
  "ItemSpec \<Rightarrow> int \<Rightarrow> 'a ItemBase_scheme \<Rightarrow> 'b ItemBase_scheme \<Rightarrow> error + TextItem" where
  "TextItem_from_spec spec layer start_item end_item =
     (let a = attrs_from_spec spec layer start_item end_item in
      case kind spec of
        ImageSpec img \<Rightarrow> Inl AttributeError
      | TextSpec txt font_size \<Rightarrow>
          Inr (ItemBase.extend (ItemBase_of_attrs a)
                 (TextItem.fields
                    (case truthy font_size of
                       None \<Rightarrow> Animation_const 48
                     | Some v \<Rightarrow> Animation_const v)
                    txt)))"

text \<open>
  \<open>ImageItem.attrs_from_spec\<close> puts the object \<open>PureWindowsPath(project_root /
  spec.image)\<close> under \<open>FilePath\<close>, and \<open>cls(**attrs)\<close> validates it for the field
  \<open>FilePath: str\<close>. The validator of a \<open>str\<close> field takes a \<open>str\<close>, a number and
  bytes; a path object is none of these, so the validation raises \<open>ValidationError\<close>.
\<close>

datatype py_path = PureWindowsPath pystr pystr

fun validate_FilePath :: "py_path \<Rightarrow> error + pystr" where
  "validate_FilePath (PureWindowsPath project_root img) = Inl ValidationError"

text \<open>\<open>ImageItem.from_spec(project_root, spec, layer, start_item, end_item)\<close>.\<close>

definition ImageItem_from_spec ::
  "pystr \<Rightarrow> ItemSpec \<Rightarrow> int \<Rightarrow> 'a ItemBase_scheme \<Rightarrow> 'b ItemBase_scheme
     \<Rightarrow> error + ImageItem" where
  "ImageItem_from_spec project_root spec layer start_item end_item =
     (let a = attrs_from_spec spec layer start_item end_item in
      case kind spec of
        TextSpec txt font_size \<Rightarrow> Inl AttributeError
      | ImageSpec img \<Rightarrow>
          (case validate_FilePath (PureWindowsPath project_root img) of
             Inl e \<Rightarrow> Inl e
           | Inr p \<Rightarrow> Inr (ItemBase.extend (ItemBase_of_attrs a) (ImageItem.fields p))))"

section \<open>yaml2items.py: the alignment loop of main\<close>

text \<open>The two inner \<open>while\<close> loops, lines 61 to 64 and 70 to 73: voice items are popped
  from the front until the front one matches or the list is empty.\<close>

fun pop_until_match :: "VoiceSpec \<Rightarrow> VoiceItem list \<Rightarrow> VoiceItem list" where
  "pop_until_match voice_spec [] = []"
| "pop_until_match voice_spec (v # voice_items) =
     (if \<not> matches voice_spec v then pop_until_match voice_spec voice_items
      else v # voice_items)"

text \<open>Lines 79 to 93: the new item of a matched specification.\<close>

definition new_item ::
  "externals \<Rightarrow> pystr \<Rightarrow> VideoInfo \<Rightarrow> ItemSpec \<Rightarrow> int \<Rightarrow> VoiceItem \<Rightarrow> VoiceItem \<Rightarrow> error + Item" where
  "new_item E project_root video_info current_item_spec layer start_voice_item end_voice_item =
     (case kind current_item_spec of
        ImageSpec img \<Rightarrow>
          (case calculate_image_transformation E img video_info 320 20 of
             Inl e \<Rightarrow> Inl e
           | Inr transform \<Rightarrow>
               let spec1 = (if zoom current_item_spec = None
                            then current_item_spec\<lparr>zoom := Some (transform_zoom transform)\<rparr>
                            else current_item_spec);
                   spec2 = (if y spec1 = None
                            then spec1\<lparr>y := Some (transform_y transform)\<rparr>
                            else spec1)
               in (case ImageItem_from_spec project_root spec2 layer
                          start_voice_item end_voice_item of
                     Inl e \<Rightarrow> Inl e
                   | Inr it \<Rightarrow> Inr (Item_Image it)))
      | TextSpec txt font_size \<Rightarrow>
          (case TextItem_from_spec current_item_spec layer start_voice_item end_voice_item of
             Inl e \<Rightarrow> Inl e
           | Inr it \<Rightarrow> Inr (Item_Text it)))"

text \<open>
  The \<open>while\<close> loop of lines 59 to 95, on the two work lists and the item list of the
  project. Calling \<open>matches\<close> on a specification whose voice reference is \<open>None\<close> is an
  \<open>AttributeError\<close>.
\<close>

fun while_loop ::
  "externals \<Rightarrow> pystr \<Rightarrow> VideoInfo \<Rightarrow> int \<Rightarrow> ItemSpec list \<Rightarrow> VoiceItem list \<Rightarrow> Item list
     \<Rightarrow> error + Item list" where
  "while_loop E project_root video_info layer [] voice_items items = Inr items"
| "while_loop E project_root video_info layer (current_item_spec # item_specs) voice_items items =
     (if voice_items = [] then Inr items
      else
        (case start_voice_spec current_item_spec of
           None \<Rightarrow> Inl AttributeError
         | Some sv \<Rightarrow>
             (case pop_until_match sv voice_items of
                [] \<Rightarrow> Inl (ValueError_no_match sv)
              | start_voice_item # rest1 \<Rightarrow>
                  (case end_voice_spec current_item_spec of
                     None \<Rightarrow> Inl AttributeError
                   | Some ev \<Rightarrow>
                       (case pop_until_match ev (start_voice_item # rest1) of
                          [] \<Rightarrow> Inl (ValueError_no_match ev)
                        | end_voice_item # rest2 \<Rightarrow>
                            (case new_item E project_root video_info current_item_spec layer
                                    start_voice_item end_voice_item of
                               Inl e \<Rightarrow> Inl e
                             | Inr it \<Rightarrow>
                                 while_loop E project_root video_info layer item_specs rest2
                                   (items @ [it])))))))"

text \<open>Lines 53 to 55: every item at or above the insertion layer moves up by one.\<close>

definition set_Layer :: "Item \<Rightarrow> int \<Rightarrow> Item" where
  "set_Layer item l =
     (case item of
        Item_Image i \<Rightarrow> Item_Image (i\<lparr>Layer := l\<rparr>)
      | Item_Shape i \<Rightarrow> Item_Shape (i\<lparr>Layer := l\<rparr>)
      | Item_Tachie i \<Rightarrow> Item_Tachie (i\<lparr>Layer := l\<rparr>)
      | Item_Text i \<Rightarrow> Item_Text (i\<lparr>Layer := l\<rparr>)
      | Item_Voice i \<Rightarrow> Item_Voice (i\<lparr>Layer := l\<rparr>))"

definition get_Layer :: "Item \<Rightarrow> int" where
  "get_Layer item =
     (case item of
        Item_Image i \<Rightarrow> Layer i
      | Item_Shape i \<Rightarrow> Layer i
      | Item_Tachie i \<Rightarrow> Layer i
      | Item_Text i \<Rightarrow> Layer i
      | Item_Voice i \<Rightarrow> Layer i)"

definition shift_layer :: "int \<Rightarrow> Item \<Rightarrow> Item" where
  "shift_layer layer item =
     (if get_Layer item \<ge> layer then set_Layer item (get_Layer item + 1) else item)"

text \<open>Lines 56 to 58: the voice items of the project, in the order of the timeline.\<close>

fun voice_items_of :: "Item list \<Rightarrow> VoiceItem list" where
  "voice_items_of [] = []"
| "voice_items_of (Item_Voice v # items) = v # voice_items_of items"
| "voice_items_of (Item_Image i # items) = voice_items_of items"
| "voice_items_of (Item_Shape i # items) = voice_items_of items"
| "voice_items_of (Item_Tachie i # items) = voice_items_of items"
| "voice_items_of (Item_Text i # items) = voice_items_of items"

text \<open>
  Lines 52 to 106 of \<open>main\<close>, from the insertion layer to the dump of the project: the
  result \<open>Inr\<close> is the project document written to the output path, and an exception
  leaves no document.
\<close>

definition main_from_layer ::
  "externals \<Rightarrow> pystr \<Rightarrow> ItemSpec list \<Rightarrow> Project \<Rightarrow> error + Project" where
  "main_from_layer E project_root item_specs project =
     (let layer = 3;
          items = map (shift_layer layer) (Items (Timeline project));
          voice_items = voice_items_of items
      in case while_loop E project_root (VideoInfo (Timeline project)) layer
                item_specs voice_items items of
           Inl e \<Rightarrow> Inl e
         | Inr items' \<Rightarrow> Inr (project\<lparr>Timeline := (Timeline project)\<lparr>Items := items'\<rparr>\<rparr>))"

text \<open>
  Line 51: \<open>Path(os.environ.get("PROJECT_ROOT", output_path.parent))\<close>. The module
  imports \<open>argparse\<close>, \<open>json\<close>, \<open>typing\<close>, \<open>pathlib.Path\<close>, \<open>yaml\<close>, \<open>PIL.Image\<close>,
  \<open>pydantic\<close> and five names of \<open>project\<close>; the name \<open>os\<close> is bound nowhere, so
  evaluating it raises \<open>NameError\<close>.
\<close>

definition project_root_of :: "pystr \<Rightarrow> error + pystr" where
  "project_root_of output_path = Inl (NameError (str ''os''))"

text \<open>
  \<open>main(yaml_path, ymmp_path, output_path)\<close>, lines 48 to 106 in their order: the
  script is read, the parser runs over it, the project is read and validated, the
  project root is computed, and the rest follows. The first exception ends the call.
\<close>

definition main :: "externals \<Rightarrow> pystr \<Rightarrow> pystr \<Rightarrow> pystr \<Rightarrow> error + Project" where
  "main E yaml_path ymmp_path output_path =
     (case read_script E yaml_path of
        Inl e \<Rightarrow> Inl e
      | Inr lines \<Rightarrow>
     (case list_item_specs E lines of
        Inl e \<Rightarrow> Inl e
      | Inr item_specs \<Rightarrow>
     (case read_project E ymmp_path of
        Inl e \<Rightarrow> Inl e
      | Inr project \<Rightarrow>
     (case project_root_of output_path of
        Inl e \<Rightarrow> Inl e
      | Inr project_root \<Rightarrow> main_from_layer E project_root item_specs project))))"

section \<open>Data of the worked examples\<close>

definition example_voice :: "string \<Rightarrow> string \<Rightarrow> int \<Rightarrow> int \<Rightarrow> VoiceItem" where
  "example_voice name serif frame len =
     \<lparr>Layer = 0, Y = Animation_default, Opacity = Animation_const 100,
      Zoom = Animation_const 100, Frame = frame, Length = len,
      CharacterName = str name, Serif = str serif\<rparr>"

definition example_ref :: "string \<Rightarrow> string \<Rightarrow> VoiceSpec" where
  "example_ref name serif = \<lparr>character = str name, voice_text = str serif\<rparr>"

definition example_text_cue :: "string \<Rightarrow> VoiceSpec \<Rightarrow> VoiceSpec \<Rightarrow> ItemSpec" where
  "example_text_cue txt s e =
     \<lparr>zoom = None, y = None, start_voice_spec = Some s, end_voice_spec = Some e,
      kind = TextSpec (str txt) None\<rparr>"

definition example_image_cue :: "string \<Rightarrow> VoiceSpec \<Rightarrow> VoiceSpec \<Rightarrow> ItemSpec" where
  "example_image_cue img s e =
     \<lparr>zoom = None, y = None, start_voice_spec = Some s, end_voice_spec = Some e,
      kind = ImageSpec (str img)\<rparr>"

definition example_video_info :: VideoInfo where
  "example_video_info = \<lparr>FPS = 60, Hz = 48000, Width = 1920, Height = 1080\<rparr>"

definition example_project :: "VoiceItem list \<Rightarrow> Project" where
  "example_project voice_items =
     \<lparr>Timeline = \<lparr>VideoInfo = example_video_info, Items = map Item_Voice voice_items\<rparr>\<rparr>"

text \<open>The lines that \<open>list_item_specs\<close> passes over without effect: an empty mapping,
  and a string that has neither \<open>image\<close> nor \<open>text\<close> as a substring.\<close>

fun passed_over :: "yval \<Rightarrow> bool" where
  "passed_over (YDict d) = (d = [])"
| "passed_over (YStr s) =
     (\<not> is_substring (str ''image'') s \<and> \<not> is_substring (str ''text'') s)"
| "passed_over YNone = False"
| "passed_over (YBool b) = False"
| "passed_over (YInt i) = False"
| "passed_over (YFloat x) = False"

section \<open>Supporting lemmas\<close>

lemma str_simps [simp]: "str [] = []" "str (c # cs) = of_char c # str cs"
  by (simp_all add: str_def)



lemma pop_until_match_none:
  "(\<forall>v\<in>set voice_items. \<not> matches s v) \<Longrightarrow> pop_until_match s voice_items = []"
  by (induction voice_items) auto

text \<open>A scan never brings a popped voice item back: what it leaves is a suffix of what
  it was given.\<close>

lemma pop_until_match_suffix:
  "\<exists>popped. voice_items = popped @ pop_until_match s voice_items
            \<and> (\<forall>v\<in>set popped. \<not> matches s v)"
proof (induction voice_items)
  case Nil
  show ?case by simp
next
  case (Cons v voice_items)
  show ?case
  proof (cases "matches s v")
    case True
    then show ?thesis by simp
  next
    case False
    from Cons.IH obtain popped where
      p: "voice_items = popped @ pop_until_match s voice_items"
        "\<forall>u\<in>set popped. \<not> matches s u"
      by blast
    from p(1) have "v # voice_items = (v # popped) @ pop_until_match s voice_items"
      by simp
    with False p(2) show ?thesis
      by (intro exI [of _ "v # popped"]) simp
  qed
qed

subsection \<open>The parser yields only completed items\<close>

lemma yield_before_marker_populated:
  assumes "yield_before_marker st = Inr out"
    and "\<forall>s\<in>set (yielded st). start_voice_spec s \<noteq> None \<and> end_voice_spec s \<noteq> None"
  shows "\<forall>s\<in>set out. start_voice_spec s \<noteq> None \<and> end_voice_spec s \<noteq> None"
  using assms
  by (auto simp: yield_before_marker_def Let_def split: option.splits if_splits)

lemma yield_at_end_populated:
  assumes "yield_at_end st = Inr out"
    and "\<forall>s\<in>set (yielded st). start_voice_spec s \<noteq> None \<and> end_voice_spec s \<noteq> None"
  shows "\<forall>s\<in>set out. start_voice_spec s \<noteq> None \<and> end_voice_spec s \<noteq> None"
  using assms
  by (auto simp: yield_at_end_def Let_def split: option.splits if_splits)

lemma voice_line_yielded: "voice_line E st line = Inr st' \<Longrightarrow> yielded st' = yielded st"
  by (auto simp: voice_line_def
      split: option.splits yval.splits list.splits sum.splits if_splits)

lemma for_body_populated:
  assumes "for_body E st line = Inr st'"
    and "\<forall>s\<in>set (yielded st). start_voice_spec s \<noteq> None \<and> end_voice_spec s \<noteq> None"
  shows "\<forall>s\<in>set (yielded st'). start_voice_spec s \<noteq> None \<and> end_voice_spec s \<noteq> None"
proof (cases "is_marker line")
  case (Inl e)
  with assms show ?thesis by (simp add: for_body_def)
next
  case (Inr b)
  show ?thesis
  proof (cases b)
    case True
    with Inr assms(1) obtain out where
      o: "yield_before_marker st = Inr out" and s: "yielded st' = out"
      by (auto simp: for_body_def split: sum.splits)
    from yield_before_marker_populated [OF o assms(2)] s show ?thesis by simp
  next
    case False
    with Inr assms(1) have "voice_line E st line = Inr st'" by (simp add: for_body_def)
    then have "yielded st' = yielded st" by (rule voice_line_yielded)
    with assms(2) show ?thesis by simp
  qed
qed

lemma for_lines_populated:
  "for_lines E st lines = Inr st' \<Longrightarrow>
   \<forall>s\<in>set (yielded st). start_voice_spec s \<noteq> None \<and> end_voice_spec s \<noteq> None \<Longrightarrow>
   \<forall>s\<in>set (yielded st'). start_voice_spec s \<noteq> None \<and> end_voice_spec s \<noteq> None"
proof (induction lines arbitrary: st)
  case Nil
  then show ?case by simp
next
  case (Cons line lines)
  from Cons.prems(1) obtain st1 where
    b: "for_body E st line = Inr st1" and r: "for_lines E st1 lines = Inr st'"
    by (auto split: sum.splits)
  from for_body_populated [OF b Cons.prems(2)] Cons.IH [OF r] show ?case by blast
qed

text \<open>Whenever \<open>list_item_specs\<close> returns, every item it yielded has both voice
  references: each \<open>yield\<close> stands behind an \<open>assert\<close> of exactly that.\<close>

lemma list_item_specs_populated:
  assumes "list_item_specs E lines = Inr specs"
  shows "\<forall>s\<in>set specs. start_voice_spec s \<noteq> None \<and> end_voice_spec s \<noteq> None"
proof -
  from assms obtain st where
    f: "for_lines E \<lparr>current_item = None, last_voice_spec = None, yielded = []\<rparr> lines = Inr st"
    and e: "yield_at_end st = Inr specs"
    by (auto simp: list_item_specs_def split: sum.splits)
  have "\<forall>s\<in>set (yielded st). start_voice_spec s \<noteq> None \<and> end_voice_spec s \<noteq> None"
    using for_lines_populated [OF f] by simp
  from yield_at_end_populated [OF e this] show ?thesis .
qed

subsection \<open>Lines the parser passes over\<close>

lemma for_body_passed_over: "passed_over line \<Longrightarrow> for_body E st line = Inr st"
  by (cases line)
     (auto simp: for_body_def is_marker_def voice_line_def split: option.splits)

lemma for_lines_passed_over:
  "passed_over line \<Longrightarrow>
   for_lines E st (before @ line # after) = for_lines E st (before @ after)"
  by (induction before arbitrary: st) (auto simp: for_body_passed_over split: sum.splits)

text \<open>An empty mapping, or a string without \<open>image\<close> and \<open>text\<close> in it, can be inserted
  anywhere in the script without changing what the parser returns.\<close>

lemma list_item_specs_passed_over:
  "passed_over line \<Longrightarrow>
   list_item_specs E (before @ line # after) = list_item_specs E (before @ after)"
  by (simp add: list_item_specs_def for_lines_passed_over)

section \<open>The script parser\<close>

text \<open>
  C1. Every cue specification that \<open>list_item_specs\<close> emits has both voice references
  (lemma \<open>list_item_specs_populated\<close>), and a cue with a single voice line before the
  next marker is emitted with its end reference equal to its start reference. The last
  cue of the script is treated differently: the code after the loop (lines 164 to 168)
  lacks the default \<open>end_voice_spec := start_voice_spec\<close> of lines 141 and 142, so a
  script that ends in a cue with a single voice line raises \<open>AssertionError\<close> and emits
  nothing, while the same cue followed by another marker is emitted.
\<close>

theorem list_item_specs_single_line_last_cue:
  "list_item_specs E
     [YDict [(str ''image'', YStr (str ''a.png''))],
      YDict [(str ''A'', YStr (str ''hello''))]]
   = Inl AssertionError
   \<and> list_item_specs E
     [YDict [(str ''image'', YStr (str ''a.png''))],
      YDict [(str ''A'', YStr (str ''hello''))],
      YDict [(str ''text'', YStr (str ''caption''))],
      YDict [(str ''A'', YStr (str ''one''))],
      YDict [(str ''B'', YStr (str ''two''))]]
   = Inr [\<lparr>zoom = None, y = None,
            start_voice_spec = Some (example_ref ''A'' ''hello''),
            end_voice_spec = Some (example_ref ''A'' ''hello''),
            kind = ImageSpec (str ''a.png'')\<rparr>,
          \<lparr>zoom = None, y = None,
            start_voice_spec = Some (example_ref ''A'' ''one''),
            end_voice_spec = Some (example_ref ''B'' ''two''),
            kind = TextSpec (str ''caption'') None\<rparr>]"
  by (simp add: list_item_specs_def for_body_def is_marker_def parse_marker_def
      yield_before_marker_def yield_at_end_def voice_line_def VoiceSpec_new_def
      ItemSpec_fields_def optional_field_def required_field_def strip_def isspace_def
      example_ref_def)

text \<open>
  C7. A line that is not a mapping is meant to be skipped (line 155), but line 137
  evaluates \<open>"image" in line or "text" in line\<close> first. On a string that is the
  substring test, so a plain string that contains \<open>text\<close> or \<open>image\<close> is taken for a
  marker and \<open>parse_obj\<close> rejects it; on a blank entry (\<open>None\<close>) it is a \<open>TypeError\<close>.
  Inserting such a line in front of a script that parses makes the parser fail. (Lemma
  \<open>list_item_specs_passed_over\<close> shows the lines that are skipped.)
\<close>

theorem list_item_specs_plain_string_raises:
  "list_item_specs E
     [YDict [(str ''image'', YStr (str ''a.png''))],
      YDict [(str ''A'', YStr (str ''one''))],
      YDict [(str ''B'', YStr (str ''two''))]]
   = Inr [\<lparr>zoom = None, y = None,
            start_voice_spec = Some (example_ref ''A'' ''one''),
            end_voice_spec = Some (example_ref ''B'' ''two''),
            kind = ImageSpec (str ''a.png'')\<rparr>]
   \<and> list_item_specs E
     [YStr (str ''intro text''),
      YDict [(str ''image'', YStr (str ''a.png''))],
      YDict [(str ''A'', YStr (str ''one''))],
      YDict [(str ''B'', YStr (str ''two''))]]
   = Inl ValidationError
   \<and> list_item_specs E
     [YNone,
      YDict [(str ''image'', YStr (str ''a.png''))],
      YDict [(str ''A'', YStr (str ''one''))],
      YDict [(str ''B'', YStr (str ''two''))]]
   = Inl TypeError"
  by (simp add: list_item_specs_def for_body_def is_marker_def parse_marker_def
      yield_before_marker_def yield_at_end_def voice_line_def VoiceSpec_new_def
      ItemSpec_fields_def optional_field_def required_field_def strip_def isspace_def
      example_ref_def)

section \<open>The transform calculator\<close>

text \<open>
  C4. For every image with positive width and height and the margins 320 (bottom) and
  20 (side), \<open>calculate_image_transformation\<close> returns a zoom of 100 times the minimum
  of \<open>(Width - 20) / image_width\<close> and \<open>(Height - 20 - 320) / image_height\<close> and a
  vertical offset of \<open>- 320 / 2\<close>, and the zoomed image is strictly lower than
  \<open>Height - 320\<close> and strictly narrower than \<open>Width\<close>.
\<close>

theorem calculate_image_transformation_fits:
  assumes "image_size E image_path = Inr (w, h)" and "0 < w" and "0 < h"
  shows "\<exists>t. calculate_image_transformation E image_path video_info 320 20 = Inr t
     \<and> transform_zoom t = 100 * min (of_int (Width video_info - 20) / of_nat w)
                                   (of_int (Height video_info - 20 - 320) / of_nat h)
     \<and> transform_y t = - (320 / 2)
     \<and> transform_zoom t * of_nat h / 100 < of_int (Height video_info - 320)
     \<and> transform_zoom t * of_nat w / 100 < of_int (Width video_info)"
proof -
  define wz :: rat where "wz = of_int (Width video_info - 20) / of_nat w"
  define hz :: rat where "hz = of_int (Height video_info - 20 - 320) / of_nat h"
  have w: "(0::rat) < of_nat w" and h: "(0::rat) < of_nat h"
    using assms by simp_all
  have "min wz hz * of_nat h \<le> hz * of_nat h"
    using h by (simp add: mult_right_mono)
  also have "hz * of_nat h = of_int (Height video_info - 20 - 320)"
    using h by (simp add: hz_def)
  also have "\<dots> < (of_int (Height video_info - 320) :: rat)"
    by simp
  finally have high: "100 * min wz hz * of_nat h / 100 < (of_int (Height video_info - 320) :: rat)"
    by simp
  have "min wz hz * of_nat w \<le> wz * of_nat w"
    using w by (simp add: mult_right_mono)
  also have "wz * of_nat w = of_int (Width video_info - 20)"
    using w by (simp add: wz_def)
  also have "\<dots> < (of_int (Width video_info) :: rat)"
    by simp
  finally have wide: "100 * min wz hz * of_nat w / 100 < (of_int (Width video_info) :: rat)"
    by simp
  show ?thesis
    using assms high wide unfolding wz_def hz_def
    by (simp add: calculate_image_transformation_def Let_def)
qed

theorem calculate_image_transformation_fits_witness:
  "image_size example_externals (str ''a.png'') = Inr (800, 600)
   \<and> (0::nat) < 800 \<and> (0::nat) < 600
   \<and> (\<exists>t. calculate_image_transformation example_externals (str ''a.png'')
             example_video_info 320 20 = Inr t
          \<and> transform_zoom t = 370 / 3
          \<and> transform_y t = - 160
          \<and> transform_zoom t * 600 / 100 < 1080 - 320
          \<and> transform_zoom t * 800 / 100 < 1920)"
  using calculate_image_transformation_fits
          [of example_externals "str ''a.png''" 800 600 example_video_info]
  by (simp add: example_externals_def example_video_info_def)



section \<open>Synthesized items\<close>

text \<open>
  C3. Every cue that is matched to a start and an end voice item is to yield an item
  whose \<open>Frame\<close> is the frame of the start item and whose \<open>Length\<close> is the frame of the
  end item plus its length minus the frame of the start item. \<open>attrs_from_spec\<close>
  computes exactly these, and for a text cue the loop appends the text item that
  carries them and goes on. For an image cue the same attributes are computed, but
  \<open>ImageItem.attrs_from_spec\<close> stores a \<open>PureWindowsPath\<close> under \<open>FilePath\<close>, the
  validation of that \<open>str\<close> field rejects it, and the run ends in an exception: a
  matched image cue never yields an item.
\<close>

theorem new_item_Frame_Length:
  "attrs_Frame (attrs_from_spec cue layer s e) = Frame s
   \<and> attrs_Length (attrs_from_spec cue layer s e) = Frame e + Length e - Frame s
   \<and> (kind cue = TextSpec txt fs \<longrightarrow>
        (\<exists>it. new_item E project_root video_info cue layer s e = Inr (Item_Text it)
             \<and> Frame it = Frame s \<and> Length it = Frame e + Length e - Frame s))
   \<and> (kind cue = ImageSpec img \<longrightarrow>
        new_item E project_root video_info cue layer s e
          = (case calculate_image_transformation E img video_info 320 20 of
               Inl err \<Rightarrow> Inl err
             | Inr transform \<Rightarrow> Inl ValidationError))
   \<and> (start_voice_spec cue = Some sv \<and> end_voice_spec cue = Some ev
        \<and> pop_until_match sv voice_items = s # rest1
        \<and> pop_until_match ev (s # rest1) = e # rest2 \<longrightarrow>
        (kind cue = TextSpec txt fs \<longrightarrow>
           (\<exists>it. Frame it = Frame s \<and> Length it = Frame e + Length e - Frame s
                \<and> while_loop E project_root video_info layer (cue # item_specs)
                     voice_items items
                   = while_loop E project_root video_info layer item_specs rest2
                       (items @ [Item_Text it])))
        \<and> (kind cue = ImageSpec img \<longrightarrow>
             (\<exists>err. while_loop E project_root video_info layer (cue # item_specs)
                       voice_items items = Inl err)))"
proof -
  have attrs: "attrs_Frame (attrs_from_spec cue layer s e) = Frame s
      \<and> attrs_Length (attrs_from_spec cue layer s e) = Frame e + Length e - Frame s"
    by (simp add: attrs_from_spec_def)
  have text_item: "\<exists>it. new_item E project_root video_info cue layer s e = Inr (Item_Text it)
      \<and> Frame it = Frame s \<and> Length it = Frame e + Length e - Frame s"
    if "kind cue = TextSpec txt fs"
    using that
    by (simp add: new_item_def TextItem_from_spec_def attrs_from_spec_def
        ItemBase_of_attrs_def ItemBase.extend_def)
  have image_item: "new_item E project_root video_info cue layer s e
      = (case calculate_image_transformation E img video_info 320 20 of
           Inl err \<Rightarrow> Inl err
         | Inr transform \<Rightarrow> Inl ValidationError)"
    if "kind cue = ImageSpec img"
    using that
    by (simp add: new_item_def ImageItem_from_spec_def Let_def split: sum.splits)
  have loop: "(kind cue = TextSpec txt fs \<longrightarrow>
           (\<exists>it. Frame it = Frame s \<and> Length it = Frame e + Length e - Frame s
                \<and> while_loop E project_root video_info layer (cue # item_specs)
                     voice_items items
                   = while_loop E project_root video_info layer item_specs rest2
                       (items @ [Item_Text it])))
        \<and> (kind cue = ImageSpec img \<longrightarrow>
             (\<exists>err. while_loop E project_root video_info layer (cue # item_specs)
                       voice_items items = Inl err))"
    if m: "start_voice_spec cue = Some sv \<and> end_voice_spec cue = Some ev
        \<and> pop_until_match sv voice_items = s # rest1
        \<and> pop_until_match ev (s # rest1) = e # rest2"
  proof -
    from m have ne: "voice_items \<noteq> []"
      by auto
    have step: "while_loop E project_root video_info layer (cue # item_specs) voice_items items
        = (case new_item E project_root video_info cue layer s e of
             Inl err \<Rightarrow> Inl err
           | Inr it \<Rightarrow>
               while_loop E project_root video_info layer item_specs rest2 (items @ [it]))"
      using m ne by (simp del: pop_until_match.simps)
    show ?thesis
    proof (intro conjI impI)
      assume "kind cue = TextSpec txt fs"
      from text_item [OF this] obtain it where
        "new_item E project_root video_info cue layer s e = Inr (Item_Text it)"
        "Frame it = Frame s" "Length it = Frame e + Length e - Frame s"
        by blast
      with step show "\<exists>it. Frame it = Frame s \<and> Length it = Frame e + Length e - Frame s
          \<and> while_loop E project_root video_info layer (cue # item_specs) voice_items items
            = while_loop E project_root video_info layer item_specs rest2
                (items @ [Item_Text it])"
        by (intro exI [of _ it]) simp
    next
      assume "kind cue = ImageSpec img"
      from image_item [OF this] step
      show "\<exists>err. while_loop E project_root video_info layer (cue # item_specs)
          voice_items items = Inl err"
        by (auto split: sum.splits)
    qed
  qed
  from attrs text_item image_item loop show ?thesis
    by blast
qed

theorem new_item_Frame_Length_witness:
  "while_loop example_externals (str ''C:'') example_video_info 3
     [example_text_cue ''caption'' (example_ref ''A'' ''one'') (example_ref ''B'' ''two'')]
     [example_voice ''A'' ''one'' 100 30, example_voice ''B'' ''two'' 140 20] []
   = Inr [Item_Text
            \<lparr>Layer = 3, Y = Animation_default, Opacity = Animation_const 100,
             Zoom = Animation_const 100, Frame = 100, Length = 60,
             FontSize = Animation_const 48, Text = str ''caption''\<rparr>]
   \<and> while_loop example_externals (str ''C:'') example_video_info 3
     [example_image_cue ''a.png'' (example_ref ''A'' ''one'') (example_ref ''B'' ''two'')]
     [example_voice ''A'' ''one'' 100 30, example_voice ''B'' ''two'' 140 20] []
   = Inl ValidationError"
proof -
  let ?A = "example_voice ''A'' ''one'' 100 30" and ?B = "example_voice ''B'' ''two'' 140 20"
  let ?a = "example_ref ''A'' ''one''" and ?b = "example_ref ''B'' ''two''"
  let ?text = "example_text_cue ''caption'' ?a ?b"
  let ?image = "example_image_cue ''a.png'' ?a ?b"
  have matched: "start_voice_spec ?text = Some ?a \<and> end_voice_spec ?text = Some ?b
      \<and> pop_until_match ?a [?A, ?B] = ?A # [?B]
      \<and> pop_until_match ?b (?A # [?B]) = ?B # []"
    "start_voice_spec ?image = Some ?a \<and> end_voice_spec ?image = Some ?b
      \<and> pop_until_match ?a [?A, ?B] = ?A # [?B]
      \<and> pop_until_match ?b (?A # [?B]) = ?B # []"
    by (simp_all add: example_text_cue_def example_image_cue_def matches_def
        example_ref_def example_voice_def)
  have kinds: "kind ?text = TextSpec (str ''caption'') None"
      "kind ?image = ImageSpec (str ''a.png'')"
    by (simp_all add: example_text_cue_def example_image_cue_def)
  have frames: "Frame ?A = 100" "Frame ?B + Length ?B - Frame ?A = 60"
    by (simp_all add: example_voice_def)
  have transform: "calculate_image_transformation example_externals (str ''a.png'')
      example_video_info 320 20
      = Inr \<lparr>transform_zoom = 370 / 3, transform_y = - 160\<rparr>"
    by (simp add: calculate_image_transformation_def example_externals_def
        example_video_info_def Let_def)
  from new_item_Frame_Length
         [of ?text 3 ?A ?B "str ''caption''" None example_externals "str ''C:''"
             example_video_info _ ?a ?b "[?A, ?B]" "[?B]" "[]" "[]" "[]"]
       matched(1) kinds(1) frames
  obtain it where it: "Frame it = 100" "Length it = 60"
      "new_item example_externals (str ''C:'') example_video_info ?text 3 ?A ?B
         = Inr (Item_Text it)"
    by auto
  have "new_item example_externals (str ''C:'') example_video_info ?text 3 ?A ?B
      = Inr (Item_Text
            \<lparr>Layer = 3, Y = Animation_default, Opacity = Animation_const 100,
             Zoom = Animation_const 100, Frame = Frame it, Length = Length it,
             FontSize = Animation_const 48, Text = str ''caption''\<rparr>)"
    using it(3)
    by (auto simp: example_text_cue_def new_item_def TextItem_from_spec_def
        attrs_from_spec_def ItemBase_of_attrs_def truthy_def ItemBase.extend_def
        TextItem.fields_def)
  with it(1,2) matched(1) have text_run: "while_loop example_externals (str ''C:'')
      example_video_info 3 [?text] [?A, ?B] []
      = Inr [Item_Text
            \<lparr>Layer = 3, Y = Animation_default, Opacity = Animation_const 100,
             Zoom = Animation_const 100, Frame = 100, Length = 60,
             FontSize = Animation_const 48, Text = str ''caption''\<rparr>]"
    by (simp del: pop_until_match.simps)
  from new_item_Frame_Length
         [of ?image 3 ?A ?B _ _ example_externals "str ''C:''"
             example_video_info "str ''a.png''" ?a ?b "[?A, ?B]" "[?B]" "[]" "[]" "[]"]
       kinds(2) transform
  have "new_item example_externals (str ''C:'') example_video_info ?image 3 ?A ?B
      = Inl ValidationError"
    by simp
  with matched(2) have image_run: "while_loop example_externals (str ''C:'')
      example_video_info 3 [?image] [?A, ?B] [] = Inl ValidationError"
    by (simp del: pop_until_match.simps)
  from text_run image_run show ?thesis
    by blast
qed

section \<open>The alignment loop\<close>




text \<open>
  C8. If the scan for the start reference of the current cue empties the voice list,
  or the scan for its end reference does after the start was found, the loop raises
  the \<open>ValueError\<close> that names that very reference; and an exception of the loop leaves
  \<open>main\<close> without a written document.
\<close>

theorem while_loop_unmatched:
  "(voice_items \<noteq> [] \<and> start_voice_spec cue = Some sv
      \<and> (\<forall>v\<in>set voice_items. \<not> matches sv v) \<longrightarrow>
      while_loop E project_root video_info layer (cue # item_specs) voice_items items
        = Inl (ValueError_no_match sv))
   \<and> (start_voice_spec cue = Some sv \<and> end_voice_spec cue = Some ev
      \<and> pop_until_match sv voice_items = start_voice_item # rest
      \<and> (\<forall>v\<in>set (start_voice_item # rest). \<not> matches ev v) \<longrightarrow>
      while_loop E project_root video_info layer (cue # item_specs) voice_items items
        = Inl (ValueError_no_match ev))
   \<and> (while_loop E project_root (VideoInfo (Timeline project)) 3 specs
        (voice_items_of (map (shift_layer 3) (Items (Timeline project))))
        (map (shift_layer 3) (Items (Timeline project))) = Inl e \<longrightarrow>
      main_from_layer E project_root specs project = Inl e)"
proof (intro conjI impI)
  assume a: "voice_items \<noteq> [] \<and> start_voice_spec cue = Some sv
      \<and> (\<forall>v\<in>set voice_items. \<not> matches sv v)"
  then have "pop_until_match sv voice_items = []"
    by (simp add: pop_until_match_none)
  with a show "while_loop E project_root video_info layer (cue # item_specs) voice_items items
      = Inl (ValueError_no_match sv)"
    by simp
next
  assume a: "start_voice_spec cue = Some sv \<and> end_voice_spec cue = Some ev
      \<and> pop_until_match sv voice_items = start_voice_item # rest
      \<and> (\<forall>v\<in>set (start_voice_item # rest). \<not> matches ev v)"
  then have none: "pop_until_match ev (start_voice_item # rest) = []"
    by (intro pop_until_match_none) simp
  from a have "voice_items \<noteq> []"
    by auto
  with a none
  show "while_loop E project_root video_info layer (cue # item_specs) voice_items items
      = Inl (ValueError_no_match ev)"
    by (simp del: pop_until_match.simps)
next
  assume "while_loop E project_root (VideoInfo (Timeline project)) 3 specs
        (voice_items_of (map (shift_layer 3) (Items (Timeline project))))
        (map (shift_layer 3) (Items (Timeline project))) = Inl e"
  then show "main_from_layer E project_root specs project = Inl e"
    by (simp add: main_from_layer_def)
qed

theorem while_loop_unmatched_witness:
  "while_loop example_externals (str ''C:'') example_video_info 3
     [example_text_cue ''second'' (example_ref ''C'' ''c'') (example_ref ''D'' ''d'')]
     [example_voice ''A'' ''a'' 0 10, example_voice ''B'' ''b'' 10 10] []
   = Inl (ValueError_no_match (example_ref ''C'' ''c''))
   \<and> while_loop example_externals (str ''C:'') example_video_info 3
     [example_text_cue ''first'' (example_ref ''A'' ''a'') (example_ref ''D'' ''d'')]
     [example_voice ''A'' ''a'' 0 10, example_voice ''B'' ''b'' 10 10] []
   = Inl (ValueError_no_match (example_ref ''D'' ''d''))
   \<and> main_from_layer example_externals (str ''C:'')
     [example_text_cue ''first'' (example_ref ''A'' ''a'') (example_ref ''D'' ''d'')]
     (example_project [example_voice ''A'' ''a'' 0 10, example_voice ''B'' ''b'' 10 10])
   = Inl (ValueError_no_match (example_ref ''D'' ''d''))"
proof -
  let ?A = "example_voice ''A'' ''a'' 0 10" and ?B = "example_voice ''B'' ''b'' 10 10"
  let ?c = "example_ref ''C'' ''c''" and ?d = "example_ref ''D'' ''d''"
  let ?a = "example_ref ''A'' ''a''"
  have start_fails: "[?A, ?B] \<noteq> []
      \<and> start_voice_spec (example_text_cue ''second'' ?c ?d) = Some ?c
      \<and> (\<forall>v\<in>set [?A, ?B]. \<not> matches ?c v)"
    by (simp add: example_text_cue_def matches_def example_ref_def example_voice_def)
  have end_fails: "start_voice_spec (example_text_cue ''first'' ?a ?d) = Some ?a
      \<and> end_voice_spec (example_text_cue ''first'' ?a ?d) = Some ?d
      \<and> pop_until_match ?a [?A, ?B] = ?A # [?B]
      \<and> (\<forall>v\<in>set (?A # [?B]). \<not> matches ?d v)"
    by (simp add: example_text_cue_def matches_def example_ref_def example_voice_def)
  have shifted: "map (shift_layer 3) (Items (Timeline (example_project [?A, ?B])))
      = [Item_Voice ?A, Item_Voice ?B]"
    by (simp add: example_project_def shift_layer_def get_Layer_def example_voice_def)
  have info: "VideoInfo (Timeline (example_project [?A, ?B])) = example_video_info"
    by (simp add: example_project_def)
  have first: "while_loop example_externals (str ''C:'') example_video_info 3
      [example_text_cue ''second'' ?c ?d] [?A, ?B] [] = Inl (ValueError_no_match ?c)"
    using while_loop_unmatched
            [of "[?A, ?B]" "example_text_cue ''second'' ?c ?d" ?c example_externals
                "str ''C:''" example_video_info 3 "[]" "[]"]
          start_fails
    by blast
  have second: "while_loop example_externals (str ''C:'') example_video_info 3
      [example_text_cue ''first'' ?a ?d] [?A, ?B] items = Inl (ValueError_no_match ?d)"
    for items
    using while_loop_unmatched
            [of "[?A, ?B]" "example_text_cue ''first'' ?a ?d" ?a example_externals
                "str ''C:''" example_video_info 3 "[]" items ?d ?A "[?B]"]
          end_fails
    by blast
  have third: "main_from_layer example_externals (str ''C:'')
      [example_text_cue ''first'' ?a ?d] (example_project [?A, ?B])
      = Inl (ValueError_no_match ?d)"
    using while_loop_unmatched
            [where project = "example_project [?A, ?B]" and E = example_externals
               and project_root = "str ''C:''"
               and specs = "[example_text_cue ''first'' ?a ?d]"
               and e = "ValueError_no_match ?d"]
          second [of "[Item_Voice ?A, Item_Voice ?B]"]
    by (simp only: shifted info voice_items_of.simps)
  from first second [of "[]"] third show ?thesis by blast
qed

text \<open>
  C9. When the top of the loop is reached with an empty voice list while cue
  specifications remain, the loop ends: the remaining cues raise no error and add no
  item.
\<close>

theorem while_loop_leftover_cues_dropped:
  "while_loop E project_root video_info layer (cue # item_specs) [] items = Inr items"
  by simp

section \<open>The entry point\<close>

text \<open>
  C10. The claim says that \<open>main\<close> raises \<open>NameError\<close> for every input. Lines 48 to 50
  run before line 51: on a script whose only line is an image marker,
  \<open>list_item_specs\<close> raises \<open>AssertionError\<close>, and with a script that parses and a
  project file that does not exist, reading the project raises; in both cases that is
  the exception of \<open>main\<close>.
\<close>

theorem main_NameError_counterexample:
  "main (example_externals
          \<lparr>read_script := (\<lambda>p. Inr [YDict [(str ''image'', YStr (str ''a.png''))]])\<rparr>)
     (str ''script.yaml'') (str ''draft.ymmp'') (str ''out.ymmp'')
   = Inl AssertionError
   \<and> main (example_externals
          \<lparr>read_script := (\<lambda>p. Inr [YDict [(str ''image'', YStr (str ''a.png''))],
                                    YDict [(str ''A'', YStr (str ''a''))],
                                    YDict [(str ''B'', YStr (str ''b''))]])\<rparr>)
     (str ''script.yaml'') (str ''draft.ymmp'') (str ''out.ymmp'')
   = Inl FileNotFoundError"
  by (simp add: main_def example_externals_def list_item_specs_def for_body_def
      is_marker_def parse_marker_def yield_before_marker_def yield_at_end_def
      voice_line_def VoiceSpec_new_def ItemSpec_fields_def optional_field_def
      required_field_def)

text \<open>
  C10, amended. For every input on which lines 48 to 50 succeed (the script file is
  read and loaded, \<open>list_item_specs\<close> parses it, and the project file is read and
  validated), \<open>main\<close> raises \<open>NameError\<close> for the name \<open>os\<close> when it computes
  \<open>project_root\<close>, before the alignment and before any output is written; when one of
  these steps raises, \<open>main\<close> raises that exception; hence no call of \<open>main\<close> completes.
\<close>

theorem main_never_completes:
  "(\<forall>lines specs project.
       read_script E yaml_path = Inr lines \<and> list_item_specs E lines = Inr specs
       \<and> read_project E ymmp_path = Inr project \<longrightarrow>
       main E yaml_path ymmp_path output_path = Inl (NameError (str ''os'')))
   \<and> (\<forall>err. read_script E yaml_path = Inl err \<longrightarrow>
         main E yaml_path ymmp_path output_path = Inl err)
   \<and> (\<forall>lines err.
         read_script E yaml_path = Inr lines \<and> list_item_specs E lines = Inl err \<longrightarrow>
         main E yaml_path ymmp_path output_path = Inl err)
   \<and> (\<forall>lines specs err.
         read_script E yaml_path = Inr lines \<and> list_item_specs E lines = Inr specs
         \<and> read_project E ymmp_path = Inl err \<longrightarrow>
         main E yaml_path ymmp_path output_path = Inl err)
   \<and> (\<forall>out. main E yaml_path ymmp_path output_path \<noteq> Inr out)"
  by (auto simp: main_def project_root_of_def split: sum.splits)

theorem main_never_completes_witness:
  "main (example_externals
          \<lparr>read_script := (\<lambda>p. Inr [YDict [(str ''image'', YStr (str ''a.png''))],
                                    YDict [(str ''A'', YStr (str ''a''))],
                                    YDict [(str ''B'', YStr (str ''b''))]]),
           read_project := (\<lambda>p. Inr (example_project
              [example_voice ''A'' ''a'' 0 10, example_voice ''B'' ''b'' 10 10]))\<rparr>)
     (str ''script.yaml'') (str ''draft.ymmp'') (str ''out.ymmp'')
   = Inl (NameError (str ''os''))
   \<and> main example_externals (str ''script.yaml'') (str ''draft.ymmp'') (str ''out.ymmp'')
   = Inl FileNotFoundError"
proof -
  let ?lines = "[YDict [(str ''image'', YStr (str ''a.png''))],
                 YDict [(str ''A'', YStr (str ''a''))],
                 YDict [(str ''B'', YStr (str ''b''))]]"
  let ?project = "example_project
                    [example_voice ''A'' ''a'' 0 10, example_voice ''B'' ''b'' 10 10]"
  let ?E = "example_externals
              \<lparr>read_script := (\<lambda>p. Inr ?lines), read_project := (\<lambda>p. Inr ?project)\<rparr>"
  have parsed: "list_item_specs ?E ?lines
      = Inr [example_image_cue ''a.png'' (example_ref ''A'' ''a'') (example_ref ''B'' ''b'')]"
    by (simp add: list_item_specs_def for_body_def is_marker_def parse_marker_def
        yield_before_marker_def yield_at_end_def voice_line_def VoiceSpec_new_def
        ItemSpec_fields_def optional_field_def required_field_def strip_def isspace_def
        example_ref_def example_image_cue_def)
  have read: "read_script ?E (str ''script.yaml'') = Inr ?lines"
      "read_project ?E (str ''draft.ymmp'') = Inr ?project"
    by simp_all
  have missing: "read_script example_externals (str ''script.yaml'') = Inl FileNotFoundError"
    by (simp add: example_externals_def)
  from main_never_completes
         [of ?E "str ''script.yaml''" "str ''draft.ymmp''" "str ''out.ymmp''"]
       parsed read
  have a: "main ?E (str ''script.yaml'') (str ''draft.ymmp'') (str ''out.ymmp'')
      = Inl (NameError (str ''os''))"
    by blast
  from main_never_completes
         [of example_externals "str ''script.yaml''" "str ''draft.ymmp''" "str ''out.ymmp''"]
       missing
  have b: "main example_externals (str ''script.yaml'') (str ''draft.ymmp'') (str ''out.ymmp'')
      = Inl FileNotFoundError"
    by blast
  from a b show ?thesis
    by blast
qed

section \<open>Animation.const\<close>

text \<open>
  C6. The claim says that \<open>Animation.const(v)\<close> has \<open>From\<close> equal to \<open>To\<close>, both equal
  to \<open>v\<close>. It does not: at \<open>v = 100\<close> the result has \<open>From = 100\<close> and \<open>To = 0\<close>.
\<close>

theorem Animation_const_From_To_counterexample:
  "From (Animation_const 100) \<noteq> To (Animation_const 100)"
  by (simp add: Animation_const_def Animation_default_def)

text \<open>
  C6, amended. For every value \<open>v\<close>, \<open>Animation.const(v)\<close> has \<open>From = v\<close>, and \<open>To\<close>,
  \<open>AnimationType\<close> and \<open>Span\<close> at their defaults (\<open>To = 0.0\<close>, \<open>Span = 0.0\<close>); so
  \<open>From\<close> equals \<open>To\<close> exactly when \<open>v = 0\<close>.
\<close>

theorem Animation_const_fields:
  "From (Animation_const v) = v
   \<and> To (Animation_const v) = To Animation_default
   \<and> To (Animation_const v) = 0
   \<and> AnimationType (Animation_const v) = AnimationType Animation_default
   \<and> Span (Animation_const v) = Span Animation_default
   \<and> Span (Animation_const v) = 0
   \<and> (From (Animation_const v) = To (Animation_const v) \<longleftrightarrow> v = 0)"
  by (simp add: Animation_const_def Animation_default_def)

end
